theory Spec2Isabelle
  imports Complex_Main
begin

section \<open>Shoe store backend: carts, checkout, promo codes and review ratings\<close>

text \<open>
  A shallow embedding of \<^verbatim>\<open>main.py\<close> and \<^verbatim>\<open>schemas.py\<close>. The datastore is an explicit state:
  one list of documents per collection, in the store's natural order. Every endpoint takes
  the state and returns the state it leaves behind together with its outcome, an
  \<open>error + response\<close>, so that a raise after a write would show in the returned state.

  Amounts are Python floats. They are modelled as reals, and the arithmetic on them (the sum
  of price times quantity, the percentage discount, the mean rating, \<^verbatim>\<open>round(x, 2)\<close>) is
  idealised as exact: the rounding of binary floating point is not modelled. The value of a
  rounded total or average is therefore stated below only at inputs where every intermediate
  result is an exactly representable number, and no general property is stated about it.
\<close>

subsection \<open>Errors\<close>

datatype error =
    HTTPException nat string
  | InvalidId
  | ValidationError

subsection \<open>Object identities (the bson library)\<close>

text \<open>
  \<^verbatim>\<open>ObjectId(s)\<close> accepts a string of 24 hexadecimal digits in either case and raises
  otherwise; \<^verbatim>\<open>str\<close> of an identity is its lower-case hexadecimal form.
\<close>

definition is_hex :: "char \<Rightarrow> bool" where
  "is_hex c = (c \<in> set ''0123456789abcdefABCDEF'')"

definition hex_lower :: "char \<Rightarrow> char" where
  "hex_lower c =
     (if c = CHR ''A'' then CHR ''a'' else if c = CHR ''B'' then CHR ''b''
      else if c = CHR ''C'' then CHR ''c'' else if c = CHR ''D'' then CHR ''d''
      else if c = CHR ''E'' then CHR ''e'' else if c = CHR ''F'' then CHR ''f'' else c)"

definition is_object_id :: "string \<Rightarrow> bool" where
  "is_object_id s = (length s = 24 \<and> list_all is_hex s)"

definition ObjectId :: "string \<Rightarrow> error + string" where
  "ObjectId s = (if is_object_id s then Inr (map hex_lower s) else Inl InvalidId)"

subsection \<open>Documents and collections (schemas.py)\<close>

text \<open>A stored document is a model value together with the identity the store gave it.\<close>

record 'a document =
  doc_id :: string
  doc :: 'a

record CartItem =
  product_id :: string
  name :: string
  price :: real
  item_size :: int
  qty :: int
  image :: "string option"

record CartOwner =
  owner_type :: string
  owner_id :: string

record Cart =
  owner_type :: string
  owner_id :: string
  items :: "CartItem list"

record Rating =
  average :: real
  count :: nat

record Shoeproduct =
  name :: string
  brand :: string
  description :: "string option"
  price :: real
  sizes :: "int list"
  style :: "string option"
  images :: "string list"
  in_stock :: bool
  stock_by_size :: "(string \<times> int) list"
  rating :: Rating
  tags :: "string list"

record Review =
  product_id :: string
  user_id :: "string option"
  rating :: int
  comment :: "string option"
  author_name :: "string option"

record Payment =
  pay_method :: "string option"
  status :: string
  transaction_id :: "string option"

record Tracking =
  carrier :: "string option"
  tracking_number :: "string option"
  tracking_status :: string

record Order =
  user_id :: "string option"
  items :: "CartItem list"
  total_amount :: real
  status :: string
  shipping_address :: "(string \<times> string) list option"
  payment :: Payment
  tracking :: Tracking

record Promocode =
  code :: string
  discount_type :: string
  promo_value :: real
  active :: bool
  promo_description :: "string option"

record db =
  shoeproduct :: "Shoeproduct document list"
  review :: "Review document list"
  cart :: "Cart document list"
  order :: "Order document list"
  promocode :: "Promocode document list"

subsection \<open>The datastore's operations (the pymongo library)\<close>

text \<open>
  \<^verbatim>\<open>find_one\<close> returns the first document that matches, \<^verbatim>\<open>update_one\<close> changes the first
  document that matches and \<^verbatim>\<open>delete_one\<close> removes the first document that matches; each
  leaves the collection as it is when nothing matches.
\<close>

definition find_one :: "('a \<Rightarrow> bool) \<Rightarrow> 'a list \<Rightarrow> 'a option" where
  "find_one P xs = find P xs"

fun update_one :: "('a \<Rightarrow> bool) \<Rightarrow> ('a \<Rightarrow> 'a) \<Rightarrow> 'a list \<Rightarrow> 'a list" where
  "update_one P f [] = []"
| "update_one P f (x # xs) = (if P x then f x # xs else x # update_one P f xs)"

fun delete_one :: "('a \<Rightarrow> bool) \<Rightarrow> 'a list \<Rightarrow> 'a list" where
  "delete_one P [] = []"
| "delete_one P (x # xs) = (if P x then xs else x # delete_one P xs)"

text \<open>
  Modelled from the spec: \<^verbatim>\<open>create_document\<close> of the module \<^verbatim>\<open>database\<close>, which is not
  among the sources. The spec gives the datastore an insert-one that returns the generated
  identity. The identity the store generates is the argument \<open>new_id\<close>; the document is
  appended to the collection and the identity is returned as a string.
\<close>

definition create_document :: "'a document list \<Rightarrow> string \<Rightarrow> 'a \<Rightarrow> 'a document list \<times> string" where
  "create_document coll new_id data = (coll @ [\<lparr>doc_id = new_id, doc = data\<rparr>], new_id)"

subsection \<open>Rounding to two decimals\<close>

text \<open>\<^verbatim>\<open>round(x, 2)\<close>, idealised: the nearest multiple of 1/100 of the exact number, a tie
  going to the even neighbour. The interpreter rounds the binary value it holds, which can
  lie on the other side of a tie.\<close>

definition round2 :: "real \<Rightarrow> real" where
  "round2 x =
     (let y = x * 100; f = \<lfloor>y\<rfloor>; d = y - of_int f
      in (if d < 1 / 2 then of_int f
          else if 1 / 2 < d then of_int (f + 1)
          else if even f then of_int f else of_int (f + 1)) / 100)"

subsection \<open>Cart (main.py, lines 147 to 209)\<close>

definition owned_by :: "string \<Rightarrow> string \<Rightarrow> Cart document \<Rightarrow> bool" where
  "owned_by ot oi c = (Cart.owner_type (doc c) = ot \<and> Cart.owner_id (doc c) = oi)"

definition has_id :: "string \<Rightarrow> 'a document \<Rightarrow> bool" where
  "has_id i d = (doc_id d = i)"

definition set_items :: "CartItem list \<Rightarrow> Cart document \<Rightarrow> Cart document" where
  "set_items its c = c\<lparr>doc := (doc c)\<lparr>Cart.items := its\<rparr>\<rparr>"

record CartView =
  view_id :: "string option"
  view_owner_type :: string
  view_owner_id :: string
  view_items :: "CartItem list"
  total :: real

definition line_total :: "CartItem \<Rightarrow> real" where
  "line_total it = CartItem.price it * of_int (qty it)"

definition get_cart :: "db \<Rightarrow> string \<Rightarrow> string \<Rightarrow> CartView" where
  "get_cart d ot oi =
     (case find_one (owned_by ot oi) (cart d) of
        None \<Rightarrow> \<lparr>view_id = None, view_owner_type = ot, view_owner_id = oi, view_items = [], total = 0\<rparr>
      | Some c \<Rightarrow>
          \<lparr>view_id = Some (doc_id c), view_owner_type = Cart.owner_type (doc c),
           view_owner_id = Cart.owner_id (doc c), view_items = Cart.items (doc c),
           total = round2 (sum_list (map line_total (Cart.items (doc c))))\<rparr>)"

definition same_line :: "string \<Rightarrow> int \<Rightarrow> CartItem \<Rightarrow> bool" where
  "same_line pid sz it = (CartItem.product_id it = pid \<and> item_size it = sz)"

text \<open>The loop of lines 186 to 190: the first line that matches takes the quantity, and
  the flag says whether one did. Lines 184 to 192 append the item when none did.\<close>

fun merge_item :: "CartItem \<Rightarrow> CartItem list \<Rightarrow> CartItem list \<times> bool" where
  "merge_item item [] = ([], False)"
| "merge_item item (it # its) =
     (if same_line (CartItem.product_id item) (item_size item) it
      then (it\<lparr>qty := qty it + qty item\<rparr> # its, True)
      else (let (its', merged) = merge_item item its in (it # its', merged)))"

definition merged_items :: "CartItem \<Rightarrow> CartItem list \<Rightarrow> CartItem list" where
  "merged_items item its0 =
     (let (its, merged) = merge_item item its0
      in if \<not> merged then its @ [item] else its)"

definition add_to_cart :: "db \<Rightarrow> string \<Rightarrow> CartOwner \<Rightarrow> CartItem \<Rightarrow> db \<times> (error + string)" where
  "add_to_cart d new_id owner item =
     (case ObjectId (CartItem.product_id item) of
        Inl e \<Rightarrow> (d, Inl (HTTPException 400 ''Invalid product id''))
      | Inr u \<Rightarrow>
          (case find_one (owned_by (CartOwner.owner_type owner) (CartOwner.owner_id owner)) (cart d) of
             None \<Rightarrow>
               (let cart_model = \<lparr>Cart.owner_type = CartOwner.owner_type owner,
                                  Cart.owner_id = CartOwner.owner_id owner, Cart.items = [item]\<rparr>;
                    (coll, i) = create_document (cart d) new_id cart_model
                in (d\<lparr>cart := coll\<rparr>, Inr i))
           | Some c \<Rightarrow>
               (let its = merged_items item (Cart.items (doc c))
                in (d\<lparr>cart := update_one (has_id (doc_id c)) (set_items its) (cart d)\<rparr>,
                    Inr (doc_id c)))))"

definition remove_from_cart :: "db \<Rightarrow> CartOwner \<Rightarrow> string \<Rightarrow> int \<Rightarrow> db \<times> (error + bool)" where
  "remove_from_cart d owner pid sz =
     (case find_one (owned_by (CartOwner.owner_type owner) (CartOwner.owner_id owner)) (cart d) of
        None \<Rightarrow> (d, Inl (HTTPException 404 ''Cart not found''))
      | Some c \<Rightarrow>
          (let its = filter (\<lambda>it. \<not> same_line pid sz it) (Cart.items (doc c))
           in (d\<lparr>cart := update_one (has_id (doc_id c)) (set_items its) (cart d)\<rparr>, Inr True)))"

definition clear_cart :: "db \<Rightarrow> CartOwner \<Rightarrow> db \<times> (error + bool)" where
  "clear_cart d owner =
     (d\<lparr>cart := delete_one (owned_by (CartOwner.owner_type owner) (CartOwner.owner_id owner)) (cart d)\<rparr>,
      Inr True)"

subsection \<open>Reviews (main.py, lines 109 to 144)\<close>

record ReviewCreate =
  product_id :: string
  rating :: int
  comment :: "string option"
  author_name :: "string option"

definition reviews_of :: "string \<Rightarrow> Review document list \<Rightarrow> Review document list" where
  "reviews_of pid rs = filter (\<lambda>r. Review.product_id (doc r) = pid) rs"

definition rating_summary :: "Review document list \<Rightarrow> Rating" where
  "rating_summary rlist =
     \<lparr>average = round2 (of_int (sum_list (map (\<lambda>r. Review.rating (doc r)) rlist)) / of_nat (length rlist)),
      count = length rlist\<rparr>"

definition set_rating :: "Rating \<Rightarrow> Shoeproduct document \<Rightarrow> Shoeproduct document" where
  "set_rating r p = p\<lparr>doc := (doc p)\<lparr>Shoeproduct.rating := r\<rparr>\<rparr>"

text \<open>Building the \<^verbatim>\<open>Review\<close> model checks the rating against its bounds 1 and 5
  (schemas.py, line 39); a rating outside them raises before anything is written.\<close>

definition create_review :: "db \<Rightarrow> string \<Rightarrow> ReviewCreate \<Rightarrow> db \<times> (error + string)" where
  "create_review d new_id payload =
     (case ObjectId (ReviewCreate.product_id payload) of
        Inl e \<Rightarrow> (d, Inl (HTTPException 400 ''Invalid product id''))
      | Inr u \<Rightarrow>
          (case find_one (has_id u) (shoeproduct d) of
             None \<Rightarrow> (d, Inl (HTTPException 404 ''Product not found''))
           | Some product \<Rightarrow>
               if \<not> (1 \<le> ReviewCreate.rating payload \<and> ReviewCreate.rating payload \<le> 5)
               then (d, Inl ValidationError)
               else
                 (let review_model =
                        \<lparr>Review.product_id = ReviewCreate.product_id payload, Review.user_id = None,
                         Review.rating = ReviewCreate.rating payload,
                         Review.comment = ReviewCreate.comment payload,
                         Review.author_name = ReviewCreate.author_name payload\<rparr>;
                      (coll, review_id) = create_document (review d) new_id review_model;
                      d1 = d\<lparr>review := coll\<rparr>;
                      rlist = reviews_of (ReviewCreate.product_id payload) (review d1)
                  in ((if rlist \<noteq> []
                       then d1\<lparr>shoeproduct :=
                                 update_one (has_id u) (set_rating (rating_summary rlist)) (shoeproduct d1)\<rparr>
                       else d1),
                      Inr review_id))))"

subsection \<open>Checkout (main.py, lines 212 to 254)\<close>

record CheckoutPayload =
  owner_type :: string
  owner_id :: string
  user_id :: "string option"
  shipping_address :: "(string \<times> string) list option"
  payment_method :: "string option"
  promo_code :: "string option"

record CheckoutResult =
  order_id :: string
  result_status :: string

text \<open>Line 228: the subtotal of the items read from the cart.\<close>

definition subtotal_of :: "CartItem list \<Rightarrow> real" where
  "subtotal_of its = sum_list (map line_total its)"

text \<open>Lines 229 to 236: no discount for a missing or empty promo code; otherwise the first
  active promo code document with that code decides.\<close>

definition promo_matches :: "string \<Rightarrow> Promocode document \<Rightarrow> bool" where
  "promo_matches c p = (code (doc p) = c \<and> active (doc p))"

definition discount_of :: "db \<Rightarrow> string option \<Rightarrow> real \<Rightarrow> real" where
  "discount_of d pc subtotal =
     (case pc of
        None \<Rightarrow> 0
      | Some c \<Rightarrow>
          if c = [] then 0
          else (case find_one (promo_matches c) (promocode d) of
                  None \<Rightarrow> 0
                | Some p \<Rightarrow>
                    if discount_type (doc p) = ''amount'' then promo_value (doc p)
                    else subtotal * promo_value (doc p) / 100))"

text \<open>Line 249: \<^verbatim>\<open>order_id[-6:]\<close> is the whole string when it has fewer than six characters.\<close>

definition last6 :: "string \<Rightarrow> string" where
  "last6 s = drop (length s - 6) s"

definition confirm_paid :: "string option \<Rightarrow> string \<Rightarrow> Order document \<Rightarrow> Order document" where
  "confirm_paid m oid od =
     od\<lparr>doc := (doc od)\<lparr>payment := \<lparr>pay_method = m, Payment.status = ''paid'',
                                         transaction_id = Some (''TXN-'' @ last6 oid)\<rparr>,
                         Order.status := ''confirmed''\<rparr>\<rparr>"

text \<open>The second \<^verbatim>\<open>ObjectId\<close> call, on the identity of the new order, is not guarded: were it
  to raise, the order would stay in the store and the cart would not be deleted.\<close>

definition checkout :: "db \<Rightarrow> string \<Rightarrow> CheckoutPayload \<Rightarrow> db \<times> (error + CheckoutResult)" where
  "checkout d new_id payload =
     (case find_one (owned_by (CheckoutPayload.owner_type payload) (CheckoutPayload.owner_id payload)) (cart d) of
        None \<Rightarrow> (d, Inl (HTTPException 400 ''Cart is empty''))
      | Some c \<Rightarrow>
          if Cart.items (doc c) = [] then (d, Inl (HTTPException 400 ''Cart is empty''))
          else
            (let its = Cart.items (doc c);
                 subtotal = subtotal_of its;
                 discount = discount_of d (promo_code payload) subtotal;
                 total = max 0 (subtotal - discount);
                 order_model =
                   \<lparr>Order.user_id = CheckoutPayload.user_id payload, Order.items = its,
                    total_amount = round2 total, Order.status = ''processing'',
                    Order.shipping_address = CheckoutPayload.shipping_address payload,
                    payment = \<lparr>pay_method = None, Payment.status = ''pending'', transaction_id = None\<rparr>,
                    tracking = \<lparr>carrier = None, tracking_number = None, tracking_status = ''processing''\<rparr>\<rparr>;
                 (coll, oid) = create_document (order d) new_id order_model;
                 d1 = d\<lparr>order := coll\<rparr>
             in (case ObjectId oid of
                   Inl e \<Rightarrow> (d1, Inl e)
                 | Inr u \<Rightarrow>
                     (let d2 = d1\<lparr>order := update_one (has_id u)
                                              (confirm_paid (payment_method payload) oid) (order d1)\<rparr>;
                          d3 = d2\<lparr>cart := delete_one (has_id (doc_id c)) (cart d2)\<rparr>
                      in (d3, Inr \<lparr>order_id = oid, result_status = ''confirmed''\<rparr>)))))"

subsection \<open>Invariants of the data model\<close>

text \<open>The store gives every document of a collection its own identity, and the data model
  keeps at most one cart document per owner.\<close>

definition owner_key :: "Cart document \<Rightarrow> string \<times> string" where
  "owner_key c = (Cart.owner_type (doc c), Cart.owner_id (doc c))"

definition cart_ids_distinct :: "db \<Rightarrow> bool" where
  "cart_ids_distinct d = distinct (map doc_id (cart d))"

definition one_cart_per_owner :: "db \<Rightarrow> bool" where
  "one_cart_per_owner d = distinct (map owner_key (cart d))"

text \<open>A cart holds at most one line per (product, size) pair. A store is in order when
  the three invariants hold; the stores that the operations produce from a store without
  carts, with a new identity for every cart created, are the reachable ones.\<close>

definition line_key :: "CartItem \<Rightarrow> string \<times> int" where
  "line_key it = (CartItem.product_id it, item_size it)"

definition lines_distinct :: "CartItem list \<Rightarrow> bool" where
  "lines_distinct its = distinct (map line_key its)"

definition store_ok :: "db \<Rightarrow> bool" where
  "store_ok d = (cart_ids_distinct d \<and> one_cart_per_owner d
     \<and> (\<forall>c\<in>set (cart d). lines_distinct (Cart.items (doc c))))"

inductive reachable :: "db \<Rightarrow> bool" where
  start: "cart d = [] \<Longrightarrow> reachable d"
| add: "reachable d \<Longrightarrow> new_id \<notin> set (map doc_id (cart d)) \<Longrightarrow>
        reachable (fst (add_to_cart d new_id ow item))"
| remove: "reachable d \<Longrightarrow> reachable (fst (remove_from_cart d ow pid sz))"
| clear: "reachable d \<Longrightarrow> reachable (fst (clear_cart d ow))"
| checkout: "reachable d \<Longrightarrow> reachable (fst (checkout d new_id p))"
| review: "reachable d \<Longrightarrow> reachable (fst (create_review d new_id payload))"

text \<open>The items of an owner's cart, none when the owner has no cart; the lines of a cart
  for one (product, size) pair; and a run of add calls, each with the identity the store
  would generate for a new cart.\<close>

definition owner_items :: "db \<Rightarrow> CartOwner \<Rightarrow> CartItem list" where
  "owner_items d ow =
     (case find_one (owned_by (CartOwner.owner_type ow) (CartOwner.owner_id ow)) (cart d) of
        None \<Rightarrow> [] | Some c \<Rightarrow> Cart.items (doc c))"

definition lines_for :: "string \<Rightarrow> int \<Rightarrow> CartItem list \<Rightarrow> CartItem list" where
  "lines_for pid sz its = filter (same_line pid sz) its"

fun add_all :: "db \<Rightarrow> CartOwner \<Rightarrow> (CartItem \<times> string) list \<Rightarrow> db" where
  "add_all d ow [] = d"
| "add_all d ow ((item, new_id) # calls) = add_all (fst (add_to_cart d new_id ow item)) ow calls"

text \<open>The order document a successful checkout leaves in the store, and the reviews whose
  product reference resolves to one identity.\<close>

definition new_order :: "db \<Rightarrow> Cart document \<Rightarrow> string \<Rightarrow> CheckoutPayload \<Rightarrow> Order document" where
  "new_order d c nid p =
     \<lparr>doc_id = nid,
      doc = \<lparr>Order.user_id = CheckoutPayload.user_id p, Order.items = Cart.items (doc c),
             total_amount = round2 (max 0 (subtotal_of (Cart.items (doc c))
                - discount_of d (promo_code p) (subtotal_of (Cart.items (doc c))))),
             Order.status = ''confirmed'',
             Order.shipping_address = CheckoutPayload.shipping_address p,
             payment = \<lparr>pay_method = payment_method p, Payment.status = ''paid'',
                        transaction_id = Some (''TXN-'' @ last6 nid)\<rparr>,
             tracking = \<lparr>carrier = None, tracking_number = None, tracking_status = ''processing''\<rparr>\<rparr>\<rparr>"

definition reviews_resolving :: "string \<Rightarrow> Review document list \<Rightarrow> Review document list" where
  "reviews_resolving u rs = filter (\<lambda>r. ObjectId (Review.product_id (doc r)) = Inr u) rs"

subsection \<open>Sample data\<close>

definition item_boot :: CartItem where
  "item_boot = \<lparr>CartItem.product_id = ''64b7f0a1c2d3e4f5a6b7c8d9'', CartItem.name = ''Urban Trek Boot'',
                 CartItem.price = 60, item_size = 9, qty = 1, image = None\<rparr>"

definition item_runner :: CartItem where
  "item_runner = \<lparr>CartItem.product_id = ''64b7f0a1c2d3e4f5a6b7c8da'', CartItem.name = ''AirFlex Runner'',
                   CartItem.price = 20, item_size = 10, qty = 2, image = None\<rparr>"

definition session1 :: CartOwner where
  "session1 = \<lparr>CartOwner.owner_type = ''session'', CartOwner.owner_id = ''s1''\<rparr>"

definition cart1 :: "Cart document" where
  "cart1 = \<lparr>doc_id = ''0123456789abcdef00000001'',
             doc = \<lparr>Cart.owner_type = ''session'', Cart.owner_id = ''s1'', Cart.items = [item_boot, item_runner]\<rparr>\<rparr>"

definition cart_empty :: "Cart document" where
  "cart_empty = \<lparr>doc_id = ''0123456789abcdef00000002'',
             doc = \<lparr>Cart.owner_type = ''session'', Cart.owner_id = ''s2'', Cart.items = []\<rparr>\<rparr>"

definition promos :: "Promocode document list" where
  "promos =
    [\<lparr>doc_id = ''0123456789abcdef00000011'',
      doc = \<lparr>code = ''SAVE10'', discount_type = ''percentage'', promo_value = 10, active = True,
             promo_description = None\<rparr>\<rparr>,
     \<lparr>doc_id = ''0123456789abcdef00000012'',
      doc = \<lparr>code = ''LESS20'', discount_type = ''amount'', promo_value = 20, active = True,
             promo_description = None\<rparr>\<rparr>,
     \<lparr>doc_id = ''0123456789abcdef00000013'',
      doc = \<lparr>code = ''BIG150'', discount_type = ''amount'', promo_value = 150, active = True,
             promo_description = None\<rparr>\<rparr>]"

definition store1 :: db where
  "store1 = \<lparr>shoeproduct = [], review = [], cart = [cart_empty, cart1], order = [], promocode = promos\<rparr>"

definition pay :: "string \<Rightarrow> string \<Rightarrow> string option \<Rightarrow> CheckoutPayload" where
  "pay ot oi pc = \<lparr>CheckoutPayload.owner_type = ot, CheckoutPayload.owner_id = oi,
      CheckoutPayload.user_id = None, CheckoutPayload.shipping_address = None,
      payment_method = Some ''credit_card'', promo_code = pc\<rparr>"

definition boot_calls :: "(CartItem \<times> string) list" where
  "boot_calls = [(item_boot\<lparr>qty := 2\<rparr>, ''0123456789abcdef00000031''),
                 (item_boot\<lparr>qty := 3\<rparr>, ''0123456789abcdef00000032'')]"


definition boot_product :: "Shoeproduct document" where
  "boot_product =
     \<lparr>doc_id = ''64b7f0a1c2d3e4f5a6b7c8d9'',
      doc = \<lparr>Shoeproduct.name = ''Urban Trek Boot'', brand = ''Trailforge'', description = None,
             Shoeproduct.price = 279 / 2, sizes = [7, 8, 9, 10, 11], style = Some ''boot'', images = [],
             in_stock = True, stock_by_size = [], Shoeproduct.rating = \<lparr>average = 0, count = 0\<rparr>,
             tags = [''men'', ''leather'']\<rparr>\<rparr>"

definition boot_review :: "int \<Rightarrow> ReviewCreate" where
  "boot_review r = \<lparr>ReviewCreate.product_id = ''64b7f0a1c2d3e4f5a6b7c8d9'', ReviewCreate.rating = r,
                    ReviewCreate.comment = None, ReviewCreate.author_name = None\<rparr>"

definition shop0 :: db where
  "shop0 = \<lparr>shoeproduct = [boot_product], review = [], cart = [], order = [], promocode = []\<rparr>"

definition shop1 :: db where
  "shop1 = fst (create_review shop0 ''0123456789abcdef00000041'' (boot_review 5))"

definition upper_review :: "int \<Rightarrow> ReviewCreate" where
  "upper_review r = \<lparr>ReviewCreate.product_id = ''64B7F0A1C2D3E4F5A6B7C8D9'', ReviewCreate.rating = r,
                     ReviewCreate.comment = None, ReviewCreate.author_name = None\<rparr>"

definition shop_upper :: db where
  "shop_upper = fst (create_review shop1 ''0123456789abcdef00000042'' (upper_review 1))"

section \<open>Properties\<close>

subsection \<open>Lists of documents\<close>

lemma owned_by_key: "owned_by ot oi c = (owner_key c = (ot, oi))"
  by (auto simp: owned_by_def owner_key_def)

lemma find_delete_one_key:
  "distinct (map k xs) \<Longrightarrow> find (\<lambda>x. k x = a) (delete_one (\<lambda>x. k x = a) xs) = None"
proof (induction xs)
  case Nil
  then show ?case by simp
next
  case (Cons x xs)
  show ?case
  proof (cases "k x = a")
    case True
    from Cons.prems have "k x \<notin> k ` set xs" by simp
    then have "\<forall>y\<in>set xs. k y \<noteq> k x" by (metis imageI)
    with True have "\<forall>y\<in>set xs. k y \<noteq> a" by simp
    with True show ?thesis by (simp add: find_None_iff)
  next
    case False
    with Cons show ?thesis by simp
  qed
qed

lemma delete_one_none: "find P xs = None \<Longrightarrow> delete_one P xs = xs"
  by (induction xs) (auto split: if_splits)

subsection \<open>Carts\<close>

lemma update_one_map:
  "distinct (map doc_id xs) \<Longrightarrow>
   update_one (has_id i) f xs = map (\<lambda>x. if doc_id x = i then f x else x) xs"
proof (induction xs)
  case Nil
  then show ?case by simp
next
  case (Cons x xs)
  show ?case
  proof (cases "doc_id x = i")
    case True
    from Cons.prems have "doc_id x \<notin> doc_id ` set xs" by simp
    then have "\<forall>y\<in>set xs. doc_id y \<noteq> doc_id x" by (metis imageI)
    with True have "map (\<lambda>x. if doc_id x = i then f x else x) xs = xs"
      by (simp add: map_idI)
    with True show ?thesis by (simp add: has_id_def)
  next
    case False
    with Cons show ?thesis by (simp add: has_id_def)
  qed
qed

lemma find_map_pres:
  "(\<And>x. P (g x) = P x) \<Longrightarrow> find P (map g xs) = map_option g (find P xs)"
  by (induction xs) auto

lemma owned_by_set_items: "owned_by ot oi (set_items its c) = owned_by ot oi c"
  by (simp add: owned_by_def set_items_def)

lemma find_owner_update:
  assumes "distinct (map doc_id xs)" "find (owned_by ot oi) xs = Some c"
  shows "find (owned_by ot oi) (update_one (has_id (doc_id c)) (set_items its) xs) = Some (set_items its c)"
proof -
  let ?g = "\<lambda>x. if doc_id x = doc_id c then set_items its x else x"
  have "\<And>x. owned_by ot oi (?g x) = owned_by ot oi x"
    by (simp add: owned_by_set_items)
  then have "find (owned_by ot oi) (map ?g xs) = map_option ?g (find (owned_by ot oi) xs)"
    by (rule find_map_pres)
  with assms show ?thesis by (simp add: update_one_map)
qed

lemma merge_item_flag:
  "snd (merge_item item its) = (lines_for (CartItem.product_id item) (item_size item) its \<noteq> [])"
  by (induction its) (auto simp: lines_for_def split: prod.splits)

lemma merge_item_absent:
  "lines_for (CartItem.product_id item) (item_size item) its = [] \<Longrightarrow> fst (merge_item item its) = its"
  by (induction its) (auto simp: lines_for_def split: prod.splits if_splits)

lemma same_line_qty: "same_line pid sz (it\<lparr>qty := q\<rparr>) = same_line pid sz it"
  by (simp add: same_line_def)

lemma merge_item_lines:
  "lines_for (CartItem.product_id item) (item_size item) its = l # ls \<Longrightarrow>
   lines_for (CartItem.product_id item) (item_size item) (fst (merge_item item its))
     = l\<lparr>qty := qty l + qty item\<rparr> # ls"
  by (induction its) (auto simp: lines_for_def same_line_qty split: prod.splits if_splits)

lemma merge_item_other:
  "(p, s) \<noteq> (CartItem.product_id item, item_size item) \<Longrightarrow>
   lines_for p s (fst (merge_item item its)) = lines_for p s its"
  by (induction its) (auto simp: lines_for_def same_line_def split: prod.splits if_splits)

lemma merged_items_absent:
  "lines_for (CartItem.product_id item) (item_size item) its = [] \<Longrightarrow> merged_items item its = its @ [item]"
  using merge_item_flag [of item its] merge_item_absent [of item its]
  by (simp add: merged_items_def case_prod_beta)

lemma merged_items_present:
  "lines_for (CartItem.product_id item) (item_size item) its = l # ls \<Longrightarrow>
   lines_for (CartItem.product_id item) (item_size item) (merged_items item its)
     = l\<lparr>qty := qty l + qty item\<rparr> # ls"
  using merge_item_flag [of item its] merge_item_lines [of item its l ls]
  by (simp add: merged_items_def case_prod_beta)

lemma merged_items_other:
  "(p, s) \<noteq> (CartItem.product_id item, item_size item) \<Longrightarrow>
   lines_for p s (merged_items item its) = lines_for p s its"
  using merge_item_other [of p s item its]
  by (auto simp: merged_items_def case_prod_beta lines_for_def same_line_def)

lemma find_append_none: "find P xs = None \<Longrightarrow> find P (xs @ ys) = find P ys"
  by (induction xs) (auto split: if_splits)

lemma owner_items_add:
  assumes "is_object_id (CartItem.product_id item)" "cart_ids_distinct d"
  shows "owner_items (fst (add_to_cart d new_id ow item)) ow = merged_items item (owner_items d ow)"
proof (cases "find (owned_by (CartOwner.owner_type ow) (CartOwner.owner_id ow)) (cart d)")
  case None
  then have "find (owned_by (CartOwner.owner_type ow) (CartOwner.owner_id ow))
       (cart d @ [\<lparr>doc_id = new_id, doc = \<lparr>Cart.owner_type = CartOwner.owner_type ow,
                                  Cart.owner_id = CartOwner.owner_id ow, Cart.items = [item]\<rparr>\<rparr>])
     = Some \<lparr>doc_id = new_id, doc = \<lparr>Cart.owner_type = CartOwner.owner_type ow,
                                  Cart.owner_id = CartOwner.owner_id ow, Cart.items = [item]\<rparr>\<rparr>"
    by (simp add: find_append_none owned_by_def)
  with None assms(1) show ?thesis
    by (simp add: add_to_cart_def ObjectId_def owner_items_def find_one_def create_document_def
        merged_items_def)
next
  case (Some c)
  with assms(2) have "find (owned_by (CartOwner.owner_type ow) (CartOwner.owner_id ow))
      (update_one (has_id (doc_id c)) (set_items (merged_items item (Cart.items (doc c)))) (cart d))
     = Some (set_items (merged_items item (Cart.items (doc c))) c)"
    unfolding cart_ids_distinct_def by (rule find_owner_update)
  with Some assms(1) show ?thesis
    by (simp add: add_to_cart_def ObjectId_def owner_items_def find_one_def set_items_def)
qed

lemma doc_ids_update_one: "map doc_id (update_one P (set_items its) xs) = map doc_id xs"
  by (induction xs) (auto simp: set_items_def)

lemma doc_ids_update_one_set: "doc_id ` set (update_one P (set_items its) xs) = doc_id ` set xs"
  using doc_ids_update_one [of P its xs] by (metis set_map)

lemma cart_ids_add:
  "set (map doc_id (cart (fst (add_to_cart d new_id ow item)))) \<subseteq> insert new_id (set (map doc_id (cart d)))"
  by (auto simp: add_to_cart_def create_document_def doc_ids_update_one_set
      split: sum.splits option.splits)

lemma cart_ids_distinct_add:
  "cart_ids_distinct d \<Longrightarrow> new_id \<notin> set (map doc_id (cart d)) \<Longrightarrow>
   cart_ids_distinct (fst (add_to_cart d new_id ow item))"
  by (auto simp: cart_ids_distinct_def add_to_cart_def create_document_def doc_ids_update_one
      split: sum.splits option.splits)


lemma lines_for_append: "lines_for p s (xs @ ys) = lines_for p s xs @ lines_for p s ys"
  by (simp add: lines_for_def)

lemma lines_for_self: "lines_for (CartItem.product_id item) (item_size item) [item] = [item]"
  by (simp add: lines_for_def same_line_def)

lemma merged_items_lines:
  "lines_for (CartItem.product_id item) (item_size item) (merged_items item its) =
     (case lines_for (CartItem.product_id item) (item_size item) its of
        [] \<Rightarrow> [item] | l # ls \<Rightarrow> l\<lparr>qty := qty l + qty item\<rparr> # ls)"
proof (cases "lines_for (CartItem.product_id item) (item_size item) its")
  case Nil
  then show ?thesis
    by (simp add: merged_items_absent lines_for_append lines_for_self)
next
  case (Cons l ls)
  then show ?thesis by (simp add: merged_items_present)
qed

lemma merged_items_qty:
  "sum_list (map qty (lines_for (CartItem.product_id item) (item_size item) (merged_items item its)))
     = sum_list (map qty (lines_for (CartItem.product_id item) (item_size item) its)) + qty item"
  by (simp add: merged_items_lines split: list.splits)

lemma add_all_lines:
  assumes "is_object_id pid"
  shows "\<forall>(item, nid)\<in>set calls. CartItem.product_id item = pid \<and> item_size item = sz \<Longrightarrow>
     distinct (map doc_id (cart d) @ map snd calls) \<Longrightarrow>
     length (lines_for pid sz (owner_items d ow)) \<le> 1 \<Longrightarrow>
     length (lines_for pid sz (owner_items (add_all d ow calls) ow))
        = (if calls = [] then length (lines_for pid sz (owner_items d ow)) else 1)
     \<and> sum_list (map qty (lines_for pid sz (owner_items (add_all d ow calls) ow)))
        = sum_list (map qty (lines_for pid sz (owner_items d ow))) + sum_list (map (\<lambda>c. qty (fst c)) calls)"
proof (induction calls arbitrary: d)
  case Nil
  then show ?case by simp
next
  case (Cons call calls)
  obtain item nid where call: "call = (item, nid)" by (cases call)
  let ?d = "fst (add_to_cart d nid ow item)"
  from Cons.prems(1) call have pair: "CartItem.product_id item = pid" "item_size item = sz" by auto
  from Cons.prems(2) have dist: "cart_ids_distinct d" by (simp add: cart_ids_distinct_def)
  from Cons.prems(2) call have fresh: "nid \<notin> set (map doc_id (cart d))" by auto
  have items: "owner_items ?d ow = merged_items item (owner_items d ow)"
    using assms pair dist by (simp add: owner_items_add)
  have lines: "lines_for pid sz (owner_items ?d ow) =
      (case lines_for pid sz (owner_items d ow) of [] \<Rightarrow> [item] | l # ls \<Rightarrow> l\<lparr>qty := qty l + qty item\<rparr> # ls)"
    unfolding items using merged_items_lines [of item "owner_items d ow"] pair by simp
  have len: "length (lines_for pid sz (owner_items ?d ow)) = 1"
    using Cons.prems(3) unfolding lines by (auto split: list.splits)
  have sum: "sum_list (map qty (lines_for pid sz (owner_items ?d ow)))
      = sum_list (map qty (lines_for pid sz (owner_items d ow))) + qty item"
    unfolding lines by (simp split: list.splits)
  have d': "cart_ids_distinct ?d"
    using dist fresh by (rule cart_ids_distinct_add)
  have sub: "set (map doc_id (cart ?d)) \<subseteq> insert nid (set (map doc_id (cart d)))"
    by (rule cart_ids_add)
  from Cons.prems(2) call
  have A: "set (map doc_id (cart d)) \<inter> set (map snd calls) = {}"
    and B: "nid \<notin> set (map snd calls)" and C: "distinct (map snd calls)"
    by auto
  from sub A B have "set (map doc_id (cart ?d)) \<inter> set (map snd calls) = {}" by blast
  with d' C have f2: "distinct (map doc_id (cart ?d) @ map snd calls)"
    unfolding cart_ids_distinct_def by simp
  have f1: "\<forall>(item, nid)\<in>set calls. CartItem.product_id item = pid \<and> item_size item = sz"
    using Cons.prems(1) by simp
  have f3: "length (lines_for pid sz (owner_items ?d ow)) \<le> 1" using len by simp
  have IH:
    "length (lines_for pid sz (owner_items (add_all ?d ow calls) ow))
        = (if calls = [] then length (lines_for pid sz (owner_items ?d ow)) else 1)
     \<and> sum_list (map qty (lines_for pid sz (owner_items (add_all ?d ow calls) ow)))
        = sum_list (map qty (lines_for pid sz (owner_items ?d ow))) + sum_list (map (\<lambda>c. qty (fst c)) calls)"
    by (rule Cons.IH [OF f1 f2 f3])
  show ?case using IH len sum call by simp
qed

lemma update_one_noop:
  "find P xs = Some c \<Longrightarrow> distinct (map doc_id xs) \<Longrightarrow> f c = c
   \<Longrightarrow> update_one (has_id (doc_id c)) f xs = xs"
proof (induction xs)
  case Nil
  then show ?case by simp
next
  case (Cons x xs)
  show ?case
  proof (cases "P x")
    case True
    with Cons.prems show ?thesis by (simp add: has_id_def)
  next
    case False
    with Cons.prems have fc: "find P xs = Some c" by simp
    then have "c \<in> set xs" by (auto simp: find_Some_iff)
    then have "doc_id c \<in> doc_id ` set xs" by (rule imageI)
    with Cons.prems(2) have "doc_id x \<noteq> doc_id c" by auto
    with False Cons fc show ?thesis by (simp add: has_id_def)
  qed
qed

lemma length_filter_split:
  "length xs = length (filter P xs) + length (filter (\<lambda>x. \<not> P x) xs)"
  by (induction xs) auto

subsection \<open>The invariants hold in every reachable store\<close>

lemma same_line_key: "same_line pid sz it = (line_key it = (pid, sz))"
  by (auto simp: same_line_def line_key_def)

lemma lines_distinct_one: "lines_distinct its \<Longrightarrow> length (lines_for pid sz its) \<le> 1"
proof (induction its)
  case Nil
  then show ?case by (simp add: lines_for_def)
next
  case (Cons it its)
  show ?case
  proof (cases "same_line pid sz it")
    case True
    from Cons.prems have "line_key it \<notin> line_key ` set its" by (simp add: lines_distinct_def)
    then have "\<forall>x\<in>set its. line_key x \<noteq> line_key it" by (metis imageI)
    with True have "filter (same_line pid sz) its = []"
      by (simp add: same_line_key filter_empty_conv)
    with True show ?thesis by (simp add: lines_for_def)
  next
    case False
    with Cons show ?thesis by (simp add: lines_for_def lines_distinct_def)
  qed
qed

lemma merge_item_keys: "map line_key (fst (merge_item item its)) = map line_key its"
  by (induction its) (auto simp: line_key_def split: prod.splits)

lemma merged_items_distinct:
  assumes "lines_distinct its"
  shows "lines_distinct (merged_items item its)"
proof (cases "snd (merge_item item its)")
  case True
  then have "merged_items item its = fst (merge_item item its)"
    by (simp add: merged_items_def case_prod_beta)
  with assms show ?thesis by (simp add: lines_distinct_def merge_item_keys)
next
  case False
  then have none: "lines_for (CartItem.product_id item) (item_size item) its = []"
    by (simp add: merge_item_flag)
  then have m: "merged_items item its = its @ [item]" by (rule merged_items_absent)
  from none have "\<forall>x\<in>set its. line_key x \<noteq> line_key item"
    by (auto simp: lines_for_def filter_empty_conv same_line_key line_key_def)
  then have "line_key item \<notin> line_key ` set its" by auto
  with assms show ?thesis unfolding m by (simp add: lines_distinct_def)
qed

lemma owner_keys_update_one: "map owner_key (update_one P (set_items its) xs) = map owner_key xs"
  by (induction xs) (auto simp: set_items_def owner_key_def)

lemma update_one_all:
  "\<forall>x\<in>set xs. Q x \<Longrightarrow> (\<And>y. y \<in> set xs \<Longrightarrow> Q (f y)) \<Longrightarrow> \<forall>x\<in>set (update_one P f xs). Q x"
  by (induction xs) auto

lemma items_set_items: "Cart.items (doc (set_items its c)) = its"
  by (simp add: set_items_def)

lemma delete_one_subset: "set (delete_one P xs) \<subseteq> set xs"
  by (induction xs) auto

lemma distinct_delete_one: "distinct (map k xs) \<Longrightarrow> distinct (map k (delete_one P xs))"
proof (induction xs)
  case Nil
  then show ?case by simp
next
  case (Cons x xs)
  have "k ` set (delete_one P xs) \<subseteq> k ` set xs"
    using delete_one_subset [of P xs] by blast
  with Cons show ?case by auto
qed

lemma store_ok_start: "cart d = [] \<Longrightarrow> store_ok d"
  by (simp add: store_ok_def cart_ids_distinct_def one_cart_per_owner_def)

lemma store_ok_add:
  assumes "store_ok d" "new_id \<notin> set (map doc_id (cart d))"
  shows "store_ok (fst (add_to_cart d new_id ow item))"
proof (cases "ObjectId (CartItem.product_id item)")
  case (Inl e)
  with assms(1) show ?thesis by (simp add: add_to_cart_def)
next
  case (Inr u)
  let ?P = "owned_by (CartOwner.owner_type ow) (CartOwner.owner_id ow)"
  show ?thesis
  proof (cases "find ?P (cart d)")
    case None
    then have "\<forall>c\<in>set (cart d). owner_key c \<noteq> (CartOwner.owner_type ow, CartOwner.owner_id ow)"
      by (simp add: find_None_iff owned_by_key)
    then have "(CartOwner.owner_type ow, CartOwner.owner_id ow) \<notin> owner_key ` set (cart d)"
      by auto
    with assms None Inr show ?thesis
      by (simp add: add_to_cart_def find_one_def create_document_def store_ok_def
          cart_ids_distinct_def one_cart_per_owner_def owner_key_def lines_distinct_def)
  next
    case (Some c)
    let ?its = "merged_items item (Cart.items (doc c))"
    have cart: "cart (fst (add_to_cart d new_id ow item)) = update_one (has_id (doc_id c)) (set_items ?its) (cart d)"
      using Some Inr by (simp add: add_to_cart_def find_one_def)
    from Some have "c \<in> set (cart d)" by (auto simp: find_Some_iff)
    with assms(1) have "lines_distinct ?its"
      by (simp add: store_ok_def merged_items_distinct)
    moreover from assms(1) have "\<forall>x\<in>set (cart d). lines_distinct (Cart.items (doc x))"
      by (simp add: store_ok_def)
    ultimately have "\<forall>x\<in>set (update_one (has_id (doc_id c)) (set_items ?its) (cart d)).
        lines_distinct (Cart.items (doc x))"
      by (intro update_one_all) (simp_all add: items_set_items)
    with assms(1) show ?thesis
      unfolding cart store_ok_def cart_ids_distinct_def one_cart_per_owner_def
      by (simp add: doc_ids_update_one owner_keys_update_one cart)
  qed
qed

lemma store_ok_remove: "store_ok d \<Longrightarrow> store_ok (fst (remove_from_cart d ow pid sz))"
proof -
  assume ok: "store_ok d"
  let ?P = "owned_by (CartOwner.owner_type ow) (CartOwner.owner_id ow)"
  show ?thesis
  proof (cases "find ?P (cart d)")
    case None
    with ok show ?thesis by (simp add: remove_from_cart_def find_one_def)
  next
    case (Some c)
    let ?its = "filter (\<lambda>it. \<not> same_line pid sz it) (Cart.items (doc c))"
    have cart: "cart (fst (remove_from_cart d ow pid sz)) = update_one (has_id (doc_id c)) (set_items ?its) (cart d)"
      using Some by (simp add: remove_from_cart_def find_one_def)
    from Some have "c \<in> set (cart d)" by (auto simp: find_Some_iff)
    with ok have "lines_distinct ?its"
      by (simp add: store_ok_def lines_distinct_def distinct_map_filter)
    moreover from ok have "\<forall>x\<in>set (cart d). lines_distinct (Cart.items (doc x))"
      by (simp add: store_ok_def)
    ultimately have "\<forall>x\<in>set (update_one (has_id (doc_id c)) (set_items ?its) (cart d)).
        lines_distinct (Cart.items (doc x))"
      by (intro update_one_all) (simp_all add: items_set_items)
    with ok show ?thesis
      unfolding cart store_ok_def cart_ids_distinct_def one_cart_per_owner_def
      by (simp add: doc_ids_update_one owner_keys_update_one cart)
  qed
qed

lemma store_ok_delete:
  "store_ok d \<Longrightarrow> store_ok (d\<lparr>cart := delete_one P (cart d)\<rparr>)"
  using delete_one_subset [of P "cart d"]
  by (auto simp: store_ok_def cart_ids_distinct_def one_cart_per_owner_def distinct_delete_one)

lemma store_ok_carts: "cart d' = cart d \<Longrightarrow> store_ok d \<Longrightarrow> store_ok d'"
  by (simp add: store_ok_def cart_ids_distinct_def one_cart_per_owner_def)

lemma store_ok_clear: "store_ok d \<Longrightarrow> store_ok (fst (clear_cart d ow))"
  by (simp add: clear_cart_def store_ok_delete)

lemma cart_checkout:
  "cart (fst (checkout d new_id p)) = cart d
   \<or> (\<exists>P. cart (fst (checkout d new_id p)) = delete_one P (cart d))"
  by (auto simp: checkout_def create_document_def Let_def split: option.splits sum.splits)

lemma store_ok_checkout: "store_ok d \<Longrightarrow> store_ok (fst (checkout d new_id p))"
proof -
  assume ok: "store_ok d"
  from cart_checkout [of d new_id p] show ?thesis
  proof
    assume "cart (fst (checkout d new_id p)) = cart d"
    then show ?thesis using ok by (rule store_ok_carts)
  next
    assume "\<exists>P. cart (fst (checkout d new_id p)) = delete_one P (cart d)"
    then obtain P where P: "cart (fst (checkout d new_id p)) = delete_one P (cart d)" ..
    have "cart (fst (checkout d new_id p)) = cart (d\<lparr>cart := delete_one P (cart d)\<rparr>)"
      using P by simp
    then show ?thesis using store_ok_delete [OF ok, of P] by (rule store_ok_carts)
  qed
qed

lemma cart_create_review: "cart (fst (create_review d new_id payload)) = cart d"
  by (simp add: create_review_def create_document_def Let_def split: option.splits sum.splits)

lemma store_ok_review: "store_ok d \<Longrightarrow> store_ok (fst (create_review d new_id payload))"
  using cart_create_review by (rule store_ok_carts)

lemma reachable_store_ok: "reachable d \<Longrightarrow> store_ok d"
proof (induction rule: reachable.induct)
  case (start d)
  then show ?case by (rule store_ok_start)
next
  case (add d new_id ow item)
  then show ?case by (simp add: store_ok_add)
next
  case (remove d ow pid sz)
  then show ?case by (simp add: store_ok_remove)
next
  case (clear d ow)
  then show ?case by (simp add: store_ok_clear)
next
  case (checkout d new_id p)
  then show ?case by (simp add: store_ok_checkout)
next
  case (review d new_id payload)
  then show ?case by (simp add: store_ok_review)
qed

lemma store_ok_lines: "store_ok d \<Longrightarrow> length (lines_for pid sz (owner_items d ow)) \<le> 1"
proof (cases "find (owned_by (CartOwner.owner_type ow) (CartOwner.owner_id ow)) (cart d)")
  case None
  then show ?thesis by (simp add: owner_items_def find_one_def lines_for_def)
next
  case (Some c)
  assume ok: "store_ok d"
  from Some have "c \<in> set (cart d)" by (auto simp: find_Some_iff)
  with ok have "lines_distinct (Cart.items (doc c))" by (simp add: store_ok_def)
  then have "length (lines_for pid sz (Cart.items (doc c))) \<le> 1" by (rule lines_distinct_one)
  with Some show ?thesis by (simp add: owner_items_def find_one_def)
qed

subsection \<open>Checkout and reviews\<close>

lemma update_one_append_fresh:
  "i \<notin> set (map doc_id xs) \<Longrightarrow> update_one (has_id i) f (xs @ [x]) = xs @ (if doc_id x = i then [f x] else [x])"
  by (induction xs) (auto simp: has_id_def)

lemma find_append_fresh:
  "i \<notin> set (map doc_id xs) \<Longrightarrow> find (has_id i) (xs @ ys) = find (has_id i) ys"
  by (induction xs) (auto simp: has_id_def)

lemma checkout_success:
  assumes "find_one (owned_by (CheckoutPayload.owner_type p) (CheckoutPayload.owner_id p)) (cart d) = Some c"
    and "Cart.items (doc c) \<noteq> []"
    and "ObjectId nid = Inr nid"
    and "nid \<notin> set (map doc_id (order d))"
  shows "checkout d nid p =
     (d\<lparr>order := order d @ [new_order d c nid p],
        cart := delete_one (has_id (doc_id c)) (cart d)\<rparr>,
      Inr \<lparr>order_id = nid, result_status = ''confirmed''\<rparr>)"
  using assms
  by (simp add: checkout_def create_document_def Let_def update_one_append_fresh new_order_def
      confirm_paid_def)

lemma delete_found_by_id:
  "find P xs = Some c \<Longrightarrow> distinct (map doc_id xs) \<Longrightarrow>
   delete_one (has_id (doc_id c)) xs = delete_one P xs"
proof (induction xs)
  case Nil
  then show ?case by simp
next
  case (Cons x xs)
  show ?case
  proof (cases "P x")
    case True
    with Cons.prems show ?thesis by (simp add: has_id_def)
  next
    case False
    with Cons.prems have fc: "find P xs = Some c" by simp
    then have "c \<in> set xs" by (auto simp: find_Some_iff)
    then have "doc_id c \<in> doc_id ` set xs" by (rule imageI)
    with Cons.prems(2) have "doc_id x \<noteq> doc_id c" by auto
    with False Cons fc show ?thesis by (simp add: has_id_def)
  qed
qed

lemma has_id_key: "has_id i = (\<lambda>x. doc_id x = i)"
  by (rule ext) (simp add: has_id_def)

lemma object_id_length: "ObjectId s = Inr t \<Longrightarrow> length s = 24"
  by (simp add: ObjectId_def is_object_id_def split: if_splits)

subsection \<open>Sample data evaluated\<close>

lemma store1_session1_items: "owner_items store1 session1 = [item_boot, item_runner]"
  by (simp add: owner_items_def store1_def session1_def find_one_def owned_by_def cart_empty_def cart1_def)

lemma boot_id_ok: "is_object_id ''64b7f0a1c2d3e4f5a6b7c8d9''"
  by (simp add: is_object_id_def is_hex_def)

lemma store1_boot_lines: "lines_for ''64b7f0a1c2d3e4f5a6b7c8d9'' 9 (owner_items store1 session1) = [item_boot]"
  by (simp add: store1_session1_items lines_for_def same_line_def item_boot_def item_runner_def)

lemma store1_pay_cart:
  "find_one (owned_by (CheckoutPayload.owner_type (pay ''session'' ''s1'' pc))
       (CheckoutPayload.owner_id (pay ''session'' ''s1'' pc))) (cart store1) = Some cart1"
  by (simp add: pay_def store1_def find_one_def owned_by_def cart_empty_def cart1_def)

lemma cart1_items: "Cart.items (doc cart1) = [item_boot, item_runner]"
  by (simp add: cart1_def)

lemma order_id_ok: "ObjectId ''0123456789abcdef00000021'' = Inr ''0123456789abcdef00000021''"
  by (simp add: ObjectId_def is_object_id_def is_hex_def hex_lower_def)

lemma store1_no_orders: "''0123456789abcdef00000021'' \<notin> set (map doc_id (order store1))"
  by (simp add: store1_def)

lemma shop1_state:
  "shoeproduct shop1 = [set_rating \<lparr>average = 5, count = 1\<rparr> boot_product]"
  "review shop1 = [\<lparr>doc_id = ''0123456789abcdef00000041'',
                    doc = \<lparr>Review.product_id = ''64b7f0a1c2d3e4f5a6b7c8d9'', Review.user_id = None,
                           Review.rating = 5, Review.comment = None, Review.author_name = None\<rparr>\<rparr>]"
  by (simp_all add: shop1_def shop0_def create_review_def boot_review_def ObjectId_def
      is_object_id_def is_hex_def hex_lower_def find_one_def has_id_def boot_product_def
      create_document_def reviews_of_def rating_summary_def round2_def set_rating_def)

lemma upper_resolves: "ObjectId ''64B7F0A1C2D3E4F5A6B7C8D9'' = Inr ''64b7f0a1c2d3e4f5a6b7c8d9''"
  by (simp add: ObjectId_def is_object_id_def is_hex_def hex_lower_def)

lemma lower_resolves: "ObjectId ''64b7f0a1c2d3e4f5a6b7c8d9'' = Inr ''64b7f0a1c2d3e4f5a6b7c8d9''"
  by (simp add: ObjectId_def is_object_id_def is_hex_def hex_lower_def)

subsection \<open>The claims\<close>

text \<open>
  C5. For an owner whose cart is absent or has no items, checkout fails with the empty-cart
  error (400, "Cart is empty") and returns the datastore it was given: no order is created
  and carts, orders and products are unchanged.
\<close>

theorem checkout_empty_cart:
  assumes "case find_one (owned_by (CheckoutPayload.owner_type p) (CheckoutPayload.owner_id p)) (cart d) of
             None \<Rightarrow> True | Some c \<Rightarrow> Cart.items (doc c) = []"
  shows "checkout d new_id p = (d, Inl (HTTPException 400 ''Cart is empty''))"
  using assms by (simp add: checkout_def split: option.splits)

theorem checkout_empty_cart_witness:
  "checkout store1 ''0123456789abcdef00000021'' (pay ''session'' ''s2'' None)
     = (store1, Inl (HTTPException 400 ''Cart is empty''))
   \<and> checkout store1 ''0123456789abcdef00000021'' (pay ''session'' ''s3'' None)
     = (store1, Inl (HTTPException 400 ''Cart is empty''))"
proof -
  have a: "case find_one (owned_by (CheckoutPayload.owner_type (pay ''session'' ''s2'' None))
        (CheckoutPayload.owner_id (pay ''session'' ''s2'' None))) (cart store1) of
             None \<Rightarrow> True | Some c \<Rightarrow> Cart.items (doc c) = []"
    by (simp add: pay_def store1_def find_one_def owned_by_def cart_empty_def cart1_def)
  have b: "case find_one (owned_by (CheckoutPayload.owner_type (pay ''session'' ''s3'' None))
        (CheckoutPayload.owner_id (pay ''session'' ''s3'' None))) (cart store1) of
             None \<Rightarrow> True | Some c \<Rightarrow> Cart.items (doc c) = []"
    by (simp add: pay_def store1_def find_one_def owned_by_def cart_empty_def cart1_def)
  show ?thesis
    using checkout_empty_cart [OF a] checkout_empty_cart [OF b] by simp
qed

text \<open>
  C9. \<open>clear_cart\<close> always succeeds. With at most one cart per owner, a second clear succeeds
  and changes nothing, and \<open>get_cart\<close> after a clear returns no items and total 0.
\<close>

theorem clear_twice_then_get:
  "snd (clear_cart d ow) = Inr True
   \<and> (one_cart_per_owner d \<longrightarrow>
       clear_cart (fst (clear_cart d ow)) ow = (fst (clear_cart d ow), Inr True)
       \<and> view_items (get_cart (fst (clear_cart d ow)) (CartOwner.owner_type ow) (CartOwner.owner_id ow)) = []
       \<and> total (get_cart (fst (clear_cart d ow)) (CartOwner.owner_type ow) (CartOwner.owner_id ow)) = 0)"
proof (intro conjI impI)
  show "snd (clear_cart d ow) = Inr True"
    by (simp add: clear_cart_def)
next
  let ?P = "owned_by (CartOwner.owner_type ow) (CartOwner.owner_id ow)"
  assume inv: "one_cart_per_owner d"
  have P: "?P = (\<lambda>c. owner_key c = (CartOwner.owner_type ow, CartOwner.owner_id ow))"
    by (rule ext) (simp add: owned_by_key)
  from inv have n: "find ?P (delete_one ?P (cart d)) = None"
    unfolding one_cart_per_owner_def P by (rule find_delete_one_key)
  then have "delete_one ?P (delete_one ?P (cart d)) = delete_one ?P (cart d)"
    by (rule delete_one_none)
  then show "clear_cart (fst (clear_cart d ow)) ow = (fst (clear_cart d ow), Inr True)"
    by (simp add: clear_cart_def)
  from n show "view_items (get_cart (fst (clear_cart d ow)) (CartOwner.owner_type ow) (CartOwner.owner_id ow)) = []"
    by (simp add: clear_cart_def get_cart_def find_one_def)
  from n show "total (get_cart (fst (clear_cart d ow)) (CartOwner.owner_type ow) (CartOwner.owner_id ow)) = 0"
    by (simp add: clear_cart_def get_cart_def find_one_def)
qed

theorem clear_twice_then_get_witness:
  "one_cart_per_owner store1
   \<and> snd (clear_cart store1 session1) = Inr True
   \<and> clear_cart (fst (clear_cart store1 session1)) session1 = (fst (clear_cart store1 session1), Inr True)
   \<and> view_items (get_cart (fst (clear_cart store1 session1)) ''session'' ''s1'') = []
   \<and> total (get_cart (fst (clear_cart store1 session1)) ''session'' ''s1'') = 0"
proof -
  have a: "one_cart_per_owner store1"
    by (simp add: one_cart_per_owner_def store1_def owner_key_def cart_empty_def cart1_def)
  have b: "CartOwner.owner_type session1 = ''session''" "CartOwner.owner_id session1 = ''s1''"
    by (simp_all add: session1_def)
  show ?thesis
    using a clear_twice_then_get [of store1 session1] unfolding b by simp
qed

text \<open>
  C7. \<open>remove_from_cart\<close> fails with 404 "Cart not found" when the owner has no cart. When
  the owner has a cart it succeeds; the cart then holds exactly the lines that do not match
  the (product, size) pair, unchanged and in order; nothing at all changes when no line
  matches; and with at most one line for the pair in the cart, at most one line is deleted.
\<close>

theorem remove_from_cart_spec:
  "(find_one (owned_by (CartOwner.owner_type ow) (CartOwner.owner_id ow)) (cart d) = None \<longrightarrow>
      remove_from_cart d ow pid sz = (d, Inl (HTTPException 404 ''Cart not found'')))
   \<and> (find_one (owned_by (CartOwner.owner_type ow) (CartOwner.owner_id ow)) (cart d) \<noteq> None \<longrightarrow>
        snd (remove_from_cart d ow pid sz) = Inr True
        \<and> (cart_ids_distinct d \<longrightarrow>
             owner_items (fst (remove_from_cart d ow pid sz)) ow
               = filter (\<lambda>it. \<not> same_line pid sz it) (owner_items d ow)
             \<and> (lines_for pid sz (owner_items d ow) = [] \<longrightarrow> fst (remove_from_cart d ow pid sz) = d)
             \<and> (length (lines_for pid sz (owner_items d ow)) \<le> 1 \<longrightarrow>
                  length (owner_items d ow)
                    \<le> length (owner_items (fst (remove_from_cart d ow pid sz)) ow) + 1)))"
proof (intro conjI impI)
  assume "find_one (owned_by (CartOwner.owner_type ow) (CartOwner.owner_id ow)) (cart d) = None"
  then show "remove_from_cart d ow pid sz = (d, Inl (HTTPException 404 ''Cart not found''))"
    by (simp add: remove_from_cart_def)
next
  assume "find_one (owned_by (CartOwner.owner_type ow) (CartOwner.owner_id ow)) (cart d) \<noteq> None"
  then show "snd (remove_from_cart d ow pid sz) = Inr True"
    by (auto simp: remove_from_cart_def)
next
  let ?P = "owned_by (CartOwner.owner_type ow) (CartOwner.owner_id ow)"
  assume "find_one ?P (cart d) \<noteq> None" and dist: "cart_ids_distinct d"
  then obtain c where c: "find ?P (cart d) = Some c" by (auto simp: find_one_def)
  let ?its = "filter (\<lambda>it. \<not> same_line pid sz it) (Cart.items (doc c))"
  have its: "owner_items d ow = Cart.items (doc c)"
    using c by (simp add: owner_items_def find_one_def)
  have upd: "find ?P (update_one (has_id (doc_id c)) (set_items ?its) (cart d)) = Some (set_items ?its c)"
    using dist c unfolding cart_ids_distinct_def by (rule find_owner_update)
  show after: "owner_items (fst (remove_from_cart d ow pid sz)) ow
               = filter (\<lambda>it. \<not> same_line pid sz it) (owner_items d ow)"
    using c upd by (simp add: remove_from_cart_def owner_items_def find_one_def set_items_def)
  show "fst (remove_from_cart d ow pid sz) = d" if "lines_for pid sz (owner_items d ow) = []"
  proof -
    from that have "?its = Cart.items (doc c)"
      unfolding its lines_for_def by (simp add: filter_empty_conv)
    then have "set_items ?its c = c" by (simp add: set_items_def)
    with c dist have "update_one (has_id (doc_id c)) (set_items ?its) (cart d) = cart d"
      unfolding cart_ids_distinct_def by (simp add: update_one_noop)
    with c show ?thesis by (simp add: remove_from_cart_def find_one_def)
  qed
  show "length (owner_items d ow) \<le> length (owner_items (fst (remove_from_cart d ow pid sz)) ow) + 1"
    if "length (lines_for pid sz (owner_items d ow)) \<le> 1"
    using that length_filter_split [of "owner_items d ow" "same_line pid sz"]
    unfolding after lines_for_def by simp
qed

theorem remove_from_cart_spec_witness:
  "remove_from_cart store1 \<lparr>CartOwner.owner_type = ''session'', CartOwner.owner_id = ''s3''\<rparr> ''64b7f0a1c2d3e4f5a6b7c8d9'' 9
      = (store1, Inl (HTTPException 404 ''Cart not found''))
   \<and> snd (remove_from_cart store1 session1 ''64b7f0a1c2d3e4f5a6b7c8d9'' 9) = Inr True
   \<and> owner_items (fst (remove_from_cart store1 session1 ''64b7f0a1c2d3e4f5a6b7c8d9'' 9)) session1 = [item_runner]
   \<and> remove_from_cart store1 session1 ''64b7f0a1c2d3e4f5a6b7c8d9'' 12 = (store1, Inr True)"
proof -
  have n: "find_one (owned_by (CartOwner.owner_type \<lparr>CartOwner.owner_type = ''session'', CartOwner.owner_id = ''s3''\<rparr>)
       (CartOwner.owner_id \<lparr>CartOwner.owner_type = ''session'', CartOwner.owner_id = ''s3''\<rparr>)) (cart store1) = None"
    by (simp add: store1_def find_one_def owned_by_def cart_empty_def cart1_def)
  have s: "find_one (owned_by (CartOwner.owner_type session1) (CartOwner.owner_id session1)) (cart store1) \<noteq> None"
    by (simp add: store1_def session1_def find_one_def owned_by_def cart_empty_def cart1_def)
  have dist: "cart_ids_distinct store1"
    by (simp add: cart_ids_distinct_def store1_def cart1_def cart_empty_def)
  have l12: "lines_for ''64b7f0a1c2d3e4f5a6b7c8d9'' 12 (owner_items store1 session1) = []"
    by (simp add: store1_session1_items lines_for_def same_line_def item_boot_def item_runner_def)
  have f: "filter (\<lambda>it. \<not> same_line ''64b7f0a1c2d3e4f5a6b7c8d9'' 9 it) (owner_items store1 session1) = [item_runner]"
    by (simp add: store1_session1_items same_line_def item_boot_def item_runner_def)
  show ?thesis
    using remove_from_cart_spec [of "\<lparr>CartOwner.owner_type = ''session'', CartOwner.owner_id = ''s3''\<rparr>" store1
            "''64b7f0a1c2d3e4f5a6b7c8d9''" 9]
      remove_from_cart_spec [of session1 store1 "''64b7f0a1c2d3e4f5a6b7c8d9''" 9]
      remove_from_cart_spec [of session1 store1 "''64b7f0a1c2d3e4f5a6b7c8d9''" 12]
      n s dist l12 f
    by (simp add: prod_eq_iff)
qed

text \<open>
  C10. \<open>add_to_cart\<close> checks only the form of the product id. A malformed id is rejected
  with 400 "Invalid product id" and the store is unchanged. A well-formed id always succeeds,
  the owner's cart afterwards has a line for the item's (product, size) pair whose quantities
  grew by the item's quantity, and the outcome is the same whatever the product catalog
  holds, also an empty one.
\<close>

theorem add_to_cart_checks_id_only:
  "(\<not> is_object_id (CartItem.product_id item) \<longrightarrow>
      add_to_cart d nid ow item = (d, Inl (HTTPException 400 ''Invalid product id'')))
   \<and> (is_object_id (CartItem.product_id item) \<longrightarrow>
        (\<exists>i. snd (add_to_cart d nid ow item) = Inr i)
        \<and> (cart_ids_distinct d \<longrightarrow>
             lines_for (CartItem.product_id item) (item_size item)
                (owner_items (fst (add_to_cart d nid ow item)) ow) \<noteq> []
             \<and> sum_list (map qty (lines_for (CartItem.product_id item) (item_size item)
                   (owner_items (fst (add_to_cart d nid ow item)) ow)))
               = sum_list (map qty (lines_for (CartItem.product_id item) (item_size item)
                   (owner_items d ow))) + qty item))
   \<and> add_to_cart (d\<lparr>shoeproduct := ps\<rparr>) nid ow item
       = ((fst (add_to_cart d nid ow item))\<lparr>shoeproduct := ps\<rparr>, snd (add_to_cart d nid ow item))"
proof (intro conjI impI)
  assume "\<not> is_object_id (CartItem.product_id item)"
  then show "add_to_cart d nid ow item = (d, Inl (HTTPException 400 ''Invalid product id''))"
    by (simp add: add_to_cart_def ObjectId_def)
next
  assume "is_object_id (CartItem.product_id item)"
  then show "\<exists>i. snd (add_to_cart d nid ow item) = Inr i"
    by (simp add: add_to_cart_def ObjectId_def create_document_def split: option.splits)
next
  assume v: "is_object_id (CartItem.product_id item)" and dist: "cart_ids_distinct d"
  have items: "owner_items (fst (add_to_cart d nid ow item)) ow = merged_items item (owner_items d ow)"
    using v dist by (rule owner_items_add)
  show "lines_for (CartItem.product_id item) (item_size item)
                (owner_items (fst (add_to_cart d nid ow item)) ow) \<noteq> []"
    unfolding items by (simp add: merged_items_lines split: list.splits)
  show "sum_list (map qty (lines_for (CartItem.product_id item) (item_size item)
                   (owner_items (fst (add_to_cart d nid ow item)) ow)))
               = sum_list (map qty (lines_for (CartItem.product_id item) (item_size item)
                   (owner_items d ow))) + qty item"
    unfolding items by (rule merged_items_qty)
next
  show "add_to_cart (d\<lparr>shoeproduct := ps\<rparr>) nid ow item
       = ((fst (add_to_cart d nid ow item))\<lparr>shoeproduct := ps\<rparr>, snd (add_to_cart d nid ow item))"
    by (simp add: add_to_cart_def create_document_def split: sum.splits option.splits)
qed


theorem add_to_cart_checks_id_only_witness:
  "shoeproduct store1 = []
   \<and> (\<exists>i. snd (add_to_cart store1 ''0123456789abcdef00000031'' session1 item_boot) = Inr i)
   \<and> sum_list (map qty (lines_for ''64b7f0a1c2d3e4f5a6b7c8d9'' 9
         (owner_items (fst (add_to_cart store1 ''0123456789abcdef00000031'' session1 item_boot)) session1))) = 2
   \<and> add_to_cart store1 ''0123456789abcdef00000031'' session1 (item_boot\<lparr>CartItem.product_id := ''boot''\<rparr>)
       = (store1, Inl (HTTPException 400 ''Invalid product id''))"
proof -
  have v: "is_object_id (CartItem.product_id item_boot)"
    by (simp add: item_boot_def is_object_id_def is_hex_def)
  have nv: "\<not> is_object_id (CartItem.product_id (item_boot\<lparr>CartItem.product_id := ''boot''\<rparr>))"
    by (simp add: is_object_id_def)
  have dist: "cart_ids_distinct store1"
    by (simp add: cart_ids_distinct_def store1_def cart1_def cart_empty_def)
  have p: "CartItem.product_id item_boot = ''64b7f0a1c2d3e4f5a6b7c8d9''" "item_size item_boot = 9"
    "qty item_boot = 1"
    by (simp_all add: item_boot_def)
  have e: "shoeproduct store1 = []" by (simp add: store1_def)
  show ?thesis
    using add_to_cart_checks_id_only [of item_boot store1 "''0123456789abcdef00000031''" session1 "[]"]
      add_to_cart_checks_id_only [of "item_boot\<lparr>CartItem.product_id := ''boot''\<rparr>" store1
         "''0123456789abcdef00000031''" session1 "[]"]
      v nv dist e
    by (simp add: p store1_boot_lines)
qed

text \<open>
  C3, as stated, fails: a cart that already holds a line of quantity 1 for the pair holds
  quantity 4, not 3, after one add of quantity 3.
\<close>

theorem add_sum_counterexample:
  "length (lines_for ''64b7f0a1c2d3e4f5a6b7c8d9'' 9 (owner_items store1 session1)) \<le> 1
   \<and> map qty (lines_for ''64b7f0a1c2d3e4f5a6b7c8d9'' 9
        (owner_items (add_all store1 session1 [(item_boot\<lparr>qty := 3\<rparr>, ''0123456789abcdef00000031'')]) session1))
     = [4]
   \<and> [4] \<noteq> [sum_list [3 :: int]]"
  by (simp add: store1_boot_lines add_to_cart_def ObjectId_def is_object_id_def is_hex_def
      find_one_def owned_by_def store1_def cart1_def cart_empty_def session1_def merged_items_def
      same_line_def item_boot_def item_runner_def has_id_def set_items_def owner_items_def
      lines_for_def)

text \<open>
  C3, amended. After one or more add calls for one (product, size) pair with a well-formed
  product id, starting from a cart with at most one line for that pair, the cart holds
  exactly one line for the pair, and its quantity is the sum of the added quantities plus the
  quantity the pair's line had before (nothing when the pair was absent). An add of a pair
  that is absent appends the item as a new last line.
\<close>

theorem add_all_same_pair:
  assumes "is_object_id pid"
    and "\<forall>(item, nid)\<in>set calls. CartItem.product_id item = pid \<and> item_size item = sz"
    and "distinct (map doc_id (cart d) @ map snd calls)"
    and "length (lines_for pid sz (owner_items d ow)) \<le> 1"
    and "calls \<noteq> []"
  shows "(\<exists>l. lines_for pid sz (owner_items (add_all d ow calls) ow) = [l]
            \<and> qty l = sum_list (map qty (lines_for pid sz (owner_items d ow)))
                       + sum_list (map (\<lambda>c. qty (fst c)) calls))
     \<and> (lines_for pid sz (owner_items d ow) = [] \<longrightarrow>
          owner_items (add_all d ow [hd calls]) ow = owner_items d ow @ [fst (hd calls)])"
proof
  from add_all_lines [OF assms(1-4)] assms(5)
  have len: "length (lines_for pid sz (owner_items (add_all d ow calls) ow)) = 1"
    and sum: "sum_list (map qty (lines_for pid sz (owner_items (add_all d ow calls) ow)))
        = sum_list (map qty (lines_for pid sz (owner_items d ow))) + sum_list (map (\<lambda>c. qty (fst c)) calls)"
    by simp_all
  from len obtain l where l: "lines_for pid sz (owner_items (add_all d ow calls) ow) = [l]"
    by (cases "lines_for pid sz (owner_items (add_all d ow calls) ow)") auto
  with sum show "\<exists>l. lines_for pid sz (owner_items (add_all d ow calls) ow) = [l]
            \<and> qty l = sum_list (map qty (lines_for pid sz (owner_items d ow)))
                       + sum_list (map (\<lambda>c. qty (fst c)) calls)"
    by simp
next
  obtain item nid rest where calls: "calls = (item, nid) # rest"
    using assms(5) by (cases calls) auto
  from assms(2) calls have pair: "CartItem.product_id item = pid" "item_size item = sz" by auto
  from assms(3) have dist: "cart_ids_distinct d" by (simp add: cart_ids_distinct_def)
  have "owner_items (fst (add_to_cart d nid ow item)) ow = merged_items item (owner_items d ow)"
    using assms(1) pair dist by (simp add: owner_items_add)
  then show "lines_for pid sz (owner_items d ow) = [] \<longrightarrow>
          owner_items (add_all d ow [hd calls]) ow = owner_items d ow @ [fst (hd calls)]"
    using pair calls by (simp add: merged_items_absent)
qed

theorem add_all_same_pair_witness:
  "map qty (lines_for ''64b7f0a1c2d3e4f5a6b7c8d9'' 9 (owner_items (add_all store1 session1 boot_calls) session1)) = [6]"
proof -
  have h2: "\<forall>(item, nid)\<in>set boot_calls. CartItem.product_id item = ''64b7f0a1c2d3e4f5a6b7c8d9'' \<and> item_size item = 9"
    by (simp add: boot_calls_def item_boot_def)
  have h3: "distinct (map doc_id (cart store1) @ map snd boot_calls)"
    by (simp add: boot_calls_def store1_def cart1_def cart_empty_def)
  have h4: "length (lines_for ''64b7f0a1c2d3e4f5a6b7c8d9'' 9 (owner_items store1 session1)) \<le> 1"
    by (simp add: store1_boot_lines)
  have h5: "boot_calls \<noteq> []" by (simp add: boot_calls_def)
  have q: "sum_list (map qty (lines_for ''64b7f0a1c2d3e4f5a6b7c8d9'' 9 (owner_items store1 session1)))
      + sum_list (map (\<lambda>c. qty (fst c)) boot_calls) = 6"
    by (simp add: store1_boot_lines boot_calls_def item_boot_def)
  from add_all_same_pair [OF boot_id_ok h2 h3 h4 h5] q show ?thesis by auto
qed

text \<open>
  C2. When the owner's cart has at least one item and the store gives the order a new
  identity, checkout succeeds with status "confirmed"; afterwards the cart document it read
  is gone and the owner has no cart, and the created order holds the items of that cart,
  status "confirmed", payment status "paid" and the transaction id "TXN-" followed by the
  last six characters of the order identity.
\<close>

theorem checkout_confirms_order:
  assumes "find_one (owned_by (CheckoutPayload.owner_type p) (CheckoutPayload.owner_id p)) (cart d) = Some c"
    and "Cart.items (doc c) \<noteq> []"
    and "ObjectId nid = Inr nid"
    and "nid \<notin> set (map doc_id (order d))"
    and "cart_ids_distinct d"
    and "one_cart_per_owner d"
  shows "snd (checkout d nid p) = Inr \<lparr>order_id = nid, result_status = ''confirmed''\<rparr>
     \<and> find_one (owned_by (CheckoutPayload.owner_type p) (CheckoutPayload.owner_id p))
          (cart (fst (checkout d nid p))) = None
     \<and> find_one (has_id (doc_id c)) (cart (fst (checkout d nid p))) = None
     \<and> (\<exists>od. find_one (has_id nid) (order (fst (checkout d nid p))) = Some od
          \<and> Order.items (doc od) = Cart.items (doc c)
          \<and> Order.status (doc od) = ''confirmed''
          \<and> Payment.status (payment (doc od)) = ''paid''
          \<and> transaction_id (payment (doc od)) = Some (''TXN-'' @ drop (length nid - 6) nid)
          \<and> length (drop (length nid - 6) nid) = 6)"
proof -
  let ?P = "owned_by (CheckoutPayload.owner_type p) (CheckoutPayload.owner_id p)"
  have co: "checkout d nid p =
     (d\<lparr>order := order d @ [new_order d c nid p],
        cart := delete_one (has_id (doc_id c)) (cart d)\<rparr>,
      Inr \<lparr>order_id = nid, result_status = ''confirmed''\<rparr>)"
    using assms(1-4) by (rule checkout_success)
  have c: "find ?P (cart d) = Some c" using assms(1) by (simp add: find_one_def)
  have del: "delete_one (has_id (doc_id c)) (cart d) = delete_one ?P (cart d)"
    using c assms(5) unfolding cart_ids_distinct_def by (rule delete_found_by_id)
  have P: "?P = (\<lambda>c. owner_key c = (CheckoutPayload.owner_type p, CheckoutPayload.owner_id p))"
    by (rule ext) (simp add: owned_by_key)
  have gone: "find ?P (delete_one ?P (cart d)) = None"
    using assms(6) unfolding one_cart_per_owner_def P by (rule find_delete_one_key)
  have gone_id: "find (has_id (doc_id c)) (delete_one (has_id (doc_id c)) (cart d)) = None"
    using assms(5) unfolding cart_ids_distinct_def has_id_key by (rule find_delete_one_key)
  have f: "find_one (has_id nid) (order (fst (checkout d nid p))) = Some (new_order d c nid p)"
    using assms(4) unfolding co by (simp add: find_one_def find_append_fresh has_id_def new_order_def)
  have len: "length nid = 24" using assms(3) by (rule object_id_length)
  show ?thesis
  proof (intro conjI)
    show "snd (checkout d nid p) = Inr \<lparr>order_id = nid, result_status = ''confirmed''\<rparr>"
      unfolding co by simp
    show "find_one ?P (cart (fst (checkout d nid p))) = None"
      unfolding co using gone del by (simp add: find_one_def)
    show "find_one (has_id (doc_id c)) (cart (fst (checkout d nid p))) = None"
      unfolding co using gone_id by (simp add: find_one_def)
    show "\<exists>od. find_one (has_id nid) (order (fst (checkout d nid p))) = Some od
          \<and> Order.items (doc od) = Cart.items (doc c)
          \<and> Order.status (doc od) = ''confirmed''
          \<and> Payment.status (payment (doc od)) = ''paid''
          \<and> transaction_id (payment (doc od)) = Some (''TXN-'' @ drop (length nid - 6) nid)
          \<and> length (drop (length nid - 6) nid) = 6"
      using f len by (simp add: new_order_def last6_def)
  qed
qed

theorem checkout_confirms_order_witness:
  "snd (checkout store1 ''0123456789abcdef00000021'' (pay ''session'' ''s1'' None))
     = Inr \<lparr>order_id = ''0123456789abcdef00000021'', result_status = ''confirmed''\<rparr>
   \<and> find_one (owned_by ''session'' ''s1'')
        (cart (fst (checkout store1 ''0123456789abcdef00000021'' (pay ''session'' ''s1'' None)))) = None
   \<and> map_option (\<lambda>od. (Order.items (doc od), Order.status (doc od), Payment.status (payment (doc od)),
                         transaction_id (payment (doc od))))
        (find_one (has_id ''0123456789abcdef00000021'')
           (order (fst (checkout store1 ''0123456789abcdef00000021'' (pay ''session'' ''s1'' None)))))
     = Some ([item_boot, item_runner], ''confirmed'', ''paid'', Some ''TXN-000021'')"
proof -
  have ne: "Cart.items (doc cart1) \<noteq> []" by (simp add: cart1_items)
  have dist: "cart_ids_distinct store1"
    by (simp add: cart_ids_distinct_def store1_def cart1_def cart_empty_def)
  have one: "one_cart_per_owner store1"
    by (simp add: one_cart_per_owner_def store1_def owner_key_def cart_empty_def cart1_def)
  have ow: "CheckoutPayload.owner_type (pay ''session'' ''s1'' None) = ''session''"
    "CheckoutPayload.owner_id (pay ''session'' ''s1'' None) = ''s1''"
    by (simp_all add: pay_def)
  from checkout_confirms_order [OF store1_pay_cart ne order_id_ok store1_no_orders dist one, of None]
  show ?thesis unfolding ow cart1_items by auto
qed




text \<open>
  C6, at an input where it fails. The product 64b7f0a1c2d3e4f5a6b7c8d9 has one review of
  rating 5, submitted under that reference. A second review of rating 1 is submitted under
  the upper-case spelling of the same identity: line 123 resolves it to the same product and
  the submission succeeds, but line 136 rescans the reviews by the reference string as
  submitted. Two reviews now resolve to the product, with ratings 5 and 1, and the product's
  rating summary is average 1 and count 1, not average 3 and count 2.
\<close>

theorem create_review_other_spelling:
  "doc_id boot_product = ''64b7f0a1c2d3e4f5a6b7c8d9''
   \<and> snd (create_review shop0 ''0123456789abcdef00000041'' (boot_review 5)) = Inr ''0123456789abcdef00000041''
   \<and> snd (create_review shop1 ''0123456789abcdef00000042'' (upper_review 1)) = Inr ''0123456789abcdef00000042''
   \<and> map (\<lambda>r. (Review.product_id (doc r), Review.rating (doc r)))
        (reviews_resolving ''64b7f0a1c2d3e4f5a6b7c8d9'' (review shop_upper))
      = [(''64b7f0a1c2d3e4f5a6b7c8d9'', 5), (''64B7F0A1C2D3E4F5A6B7C8D9'', 1)]
   \<and> map (\<lambda>p. (doc_id p, average (Shoeproduct.rating (doc p)), count (Shoeproduct.rating (doc p))))
        (shoeproduct shop_upper)
      = [(''64b7f0a1c2d3e4f5a6b7c8d9'', 1, 1)]"
proof (intro conjI)
  show "doc_id boot_product = ''64b7f0a1c2d3e4f5a6b7c8d9''" by (simp add: boot_product_def)
  show "snd (create_review shop0 ''0123456789abcdef00000041'' (boot_review 5)) = Inr ''0123456789abcdef00000041''"
    by (simp add: shop0_def create_review_def boot_review_def lower_resolves find_one_def has_id_def
        boot_product_def create_document_def Let_def)
  show "snd (create_review shop1 ''0123456789abcdef00000042'' (upper_review 1)) = Inr ''0123456789abcdef00000042''"
    by (simp add: shop1_state create_review_def upper_review_def upper_resolves find_one_def has_id_def
        boot_product_def set_rating_def create_document_def Let_def)
  show "map (\<lambda>r. (Review.product_id (doc r), Review.rating (doc r)))
        (reviews_resolving ''64b7f0a1c2d3e4f5a6b7c8d9'' (review shop_upper))
      = [(''64b7f0a1c2d3e4f5a6b7c8d9'', 5), (''64B7F0A1C2D3E4F5A6B7C8D9'', 1)]"
    by (simp add: shop_upper_def shop1_state create_review_def upper_review_def upper_resolves
        lower_resolves find_one_def has_id_def boot_product_def set_rating_def create_document_def
        Let_def reviews_resolving_def)
  show "map (\<lambda>p. (doc_id p, average (Shoeproduct.rating (doc p)), count (Shoeproduct.rating (doc p))))
        (shoeproduct shop_upper)
      = [(''64b7f0a1c2d3e4f5a6b7c8d9'', 1, 1)]"
    by (simp add: shop_upper_def shop1_state create_review_def upper_review_def upper_resolves
        find_one_def has_id_def boot_product_def set_rating_def create_document_def
        Let_def reviews_of_def rating_summary_def round2_def)
qed

end
